theory Spec2Isabelle
  imports
    Complex_Main
    "HOL-Library.Word"
    "HOL-Library.Char_ord"
    "HOL-Library.List_Lexorder"
    "HOL-Library.Product_Lexorder"
begin

section \<open>Gulf Global Tours API: values, documents and the Python primitives used\<close>

text \<open>
  The service (\<^verbatim>\<open>src/main.py\<close>, \<^verbatim>\<open>src/schemas.py\<close>) keeps Trip, FAQ, Review, Booking and
  Inquiry documents in a schemaless document store. A document is a Python
  \<^verbatim>\<open>dict\<close> from field names to values; it is embedded as an association list, which keeps
  the insertion order of a \<^verbatim>\<open>dict\<close> and makes the empty document recognisable.
\<close>

subsection \<open>Values\<close>

text \<open>
  The store-native identifier (\<^verbatim>\<open>bson.ObjectId\<close>) is twelve bytes, embedded as a 96-bit
  word. A Python \<^verbatim>\<open>float\<close> is carried with its numeric value and with the text that
  \<^verbatim>\<open>repr\<close> prints for it: the program compares and prints floats but never computes
  with them. A \<^verbatim>\<open>datetime.date\<close> is year, month and day.
\<close>

datatype ObjectId = ObjectId (oid_bits: "96 word")

datatype pyfloat = PyFloat (fval: rat) (frepr: string)

datatype date = Date (year: nat) (month: nat) (day: nat)

datatype "value" =
    VNone
  | VBool bool
  | VInt int
  | VFloat pyfloat
  | VStr string
  | VList "value list"
  | VDate date
  | VObjectId ObjectId

type_synonym document = "(string \<times> value) list"

subsection \<open>Errors\<close>

text \<open>
  \<^verbatim>\<open>HTTPException(status_code, detail)\<close> is what the handlers raise themselves:
  status 404 is the specification's NotFound, status 400 its ValidationError (capacity
  rule) and BadRequest (identifier helper). The other constructors are the Python
  exceptions that the handlers let escape; \<open>PydanticValidationError\<close> names the field
  that a schema constructor rejects.
\<close>

datatype error =
    HTTPException int string
  | PydanticValidationError string
  | TypeError
  | KeyError string

subsection \<open>Dictionary access\<close>

text \<open>\<^verbatim>\<open>d.get(k)\<close>, \<^verbatim>\<open>d.get(k, default)\<close>, \<^verbatim>\<open>d[k]\<close> and \<^verbatim>\<open>d[k] = v\<close>.\<close>

definition dict_get :: "document \<Rightarrow> string \<Rightarrow> value" where
  "dict_get d k = (case map_of d k of None \<Rightarrow> VNone | Some v \<Rightarrow> v)"

definition dict_get_default :: "document \<Rightarrow> string \<Rightarrow> value \<Rightarrow> value" where
  "dict_get_default d k dflt = (case map_of d k of None \<Rightarrow> dflt | Some v \<Rightarrow> v)"

definition dict_getitem :: "document \<Rightarrow> string \<Rightarrow> error + value" where
  "dict_getitem d k = (case map_of d k of None \<Rightarrow> Inl (KeyError k) | Some v \<Rightarrow> Inr v)"

fun dict_setitem :: "document \<Rightarrow> string \<Rightarrow> value \<Rightarrow> document" where
  "dict_setitem [] k v = [(k, v)]"
| "dict_setitem ((k', v') # d) k v =
     (if k' = k then (k, v) # d else (k', v') # dict_setitem d k v)"

subsection \<open>Rendering: \<^verbatim>\<open>str\<close> and \<^verbatim>\<open>repr\<close>\<close>

text \<open>The digit of a number below ten, and the hexadecimal digit of a number below sixteen.\<close>

definition digit_char :: "nat \<Rightarrow> char" where
  "digit_char n = ''0123456789'' ! n"

fun str_nat :: "nat \<Rightarrow> string" where
  "str_nat n = (if n < 10 then [digit_char n] else str_nat (n div 10) @ [digit_char (n mod 10)])"

declare str_nat.simps [simp del]

definition str_int :: "int \<Rightarrow> string" where
  "str_int i = (if i < 0 then CHR ''-'' # str_nat (nat (- i)) else str_nat (nat i))"

definition hex_char :: "nat \<Rightarrow> char" where
  "hex_char n = ''0123456789abcdef'' ! n"

text \<open>\<^verbatim>\<open>str(ObjectId)\<close>: the twelve bytes as 24 lower-case hexadecimal digits.\<close>

definition str_ObjectId :: "ObjectId \<Rightarrow> string" where
  "str_ObjectId i =
     map (\<lambda>k. hex_char (unat (oid_bits i) div 16 ^ k mod 16)) (rev [0 ..< 24])"

definition zero_pad :: "nat \<Rightarrow> string \<Rightarrow> string" where
  "zero_pad w s = replicate (w - length s) CHR ''0'' @ s"

text \<open>\<^verbatim>\<open>date.isoformat()\<close>, which is what \<^verbatim>\<open>str\<close> of a date gives.\<close>

definition str_date :: "date \<Rightarrow> string" where
  "str_date d =
     zero_pad 4 (str_nat (year d)) @ ''-'' @ zero_pad 2 (str_nat (month d)) @ ''-''
       @ zero_pad 2 (str_nat (day d))"

fun join :: "string \<Rightarrow> string list \<Rightarrow> string" where
  "join sep [] = []"
| "join sep [s] = s"
| "join sep (s # t # ss) = s @ sep @ join sep (t # ss)"

text \<open>
  \<^verbatim>\<open>repr\<close> of a \<^verbatim>\<open>str\<close>: single quotes unless the text holds a single quote and no
  double quote; the quote and the backslash are escaped, as are tab, newline and
  carriage return; the other control characters are written \<^verbatim>\<open>\xhh\<close>. Strings are
  UTF-8 byte lists, and bytes above 127 are passed through as printable text.
\<close>

definition repr_char :: "char \<Rightarrow> char \<Rightarrow> string" where
  "repr_char q c =
     (if c = q \<or> c = CHR 0x5C then [CHR 0x5C, c]
      else if c = CHR 0x09 then [CHR 0x5C, CHR ''t'']
      else if c = CHR 0x0A then [CHR 0x5C, CHR ''n'']
      else if c = CHR 0x0D then [CHR 0x5C, CHR ''r'']
      else if of_char c < (32 :: nat) \<or> c = CHR 0x7F
        then [CHR 0x5C, CHR ''x'', hex_char (of_char c div 16), hex_char (of_char c mod 16)]
      else [c])"

definition repr_str :: "string \<Rightarrow> string" where
  "repr_str s =
     (let q = (if CHR 0x27 \<in> set s \<and> CHR 0x22 \<notin> set s then CHR 0x22 else CHR 0x27)
      in q # concat (map (repr_char q) s) @ [q])"

fun py_repr :: "value \<Rightarrow> string" where
  "py_repr VNone = ''None''"
| "py_repr (VBool b) = (if b then ''True'' else ''False'')"
| "py_repr (VInt i) = str_int i"
| "py_repr (VFloat f) = frepr f"
| "py_repr (VStr s) = repr_str s"
| "py_repr (VList vs) = ''['' @ join '', '' (map py_repr vs) @ '']''"
| "py_repr (VDate d) =
     ''datetime.date('' @ str_nat (year d) @ '', '' @ str_nat (month d) @ '', ''
        @ str_nat (day d) @ '')''"
| "py_repr (VObjectId i) = ''ObjectId('' @ [CHR 0x27] @ str_ObjectId i @ [CHR 0x27] @ '')''"

text \<open>\<^verbatim>\<open>str(v)\<close>, also what an f-string field \<^verbatim>\<open>{v}\<close> prints.\<close>

definition py_str :: "value \<Rightarrow> string" where
  "py_str v =
     (case v of
        VStr s \<Rightarrow> s
      | VDate d \<Rightarrow> str_date d
      | VObjectId i \<Rightarrow> str_ObjectId i
      | _ \<Rightarrow> py_repr v)"

subsection \<open>Comparison: \<^verbatim>\<open>==\<close> and \<^verbatim>\<open><\<close>\<close>

text \<open>
  \<^verbatim>\<open>bool\<close>, \<^verbatim>\<open>int\<close> and \<^verbatim>\<open>float\<close> compare by numeric value; strings, dates and
  identifiers compare within their own type; lists compare lexicographically. Ordering
  values of unrelated types raises \<^verbatim>\<open>TypeError\<close>.
\<close>

definition num_of :: "value \<Rightarrow> rat option" where
  "num_of v =
     (case v of
        VBool b \<Rightarrow> Some (if b then 1 else 0)
      | VInt i \<Rightarrow> Some (of_int i)
      | VFloat f \<Rightarrow> Some (fval f)
      | _ \<Rightarrow> None)"

fun py_eq :: "value \<Rightarrow> value \<Rightarrow> bool"
  and py_eq_list :: "value list \<Rightarrow> value list \<Rightarrow> bool" where
  "py_eq (VList xs) (VList ys) = py_eq_list xs ys"
| "py_eq a b =
     (case (num_of a, num_of b) of
        (Some x, Some y) \<Rightarrow> x = y
      | (None, None) \<Rightarrow> a = b
      | _ \<Rightarrow> False)"
| "py_eq_list [] [] = True"
| "py_eq_list (x # xs) (y # ys) = (py_eq x y \<and> py_eq_list xs ys)"
| "py_eq_list _ _ = False"

definition date_key :: "date \<Rightarrow> nat \<times> nat \<times> nat" where
  "date_key d = (year d, month d, day d)"

fun py_lt :: "value \<Rightarrow> value \<Rightarrow> error + bool"
  and py_lt_list :: "value list \<Rightarrow> value list \<Rightarrow> error + bool" where
  "py_lt (VList xs) (VList ys) = py_lt_list xs ys"
| "py_lt (VStr s) (VStr t) = Inr (s < t)"
| "py_lt (VDate d) (VDate e) = Inr (date_key d < date_key e)"
| "py_lt (VObjectId i) (VObjectId j) = Inr (oid_bits i < oid_bits j)"
| "py_lt a b =
     (case (num_of a, num_of b) of
        (Some x, Some y) \<Rightarrow> Inr (x < y)
      | _ \<Rightarrow> Inl TypeError)"
| "py_lt_list [] ys = Inr (ys \<noteq> [])"
| "py_lt_list (x # xs) [] = Inr False"
| "py_lt_list (x # xs) (y # ys) = (if py_eq x y then py_lt_list xs ys else py_lt x y)"

text \<open>\<^verbatim>\<open>a > b\<close> is \<^verbatim>\<open>b < a\<close> on all of these types.\<close>

definition py_gt :: "value \<Rightarrow> value \<Rightarrow> error + bool" where
  "py_gt a b = py_lt b a"

section \<open>Entity schemas (\<^verbatim>\<open>src/schemas.py\<close>)\<close>

text \<open>
  A pydantic model is a record; its constructor applies the defaults of the fields that
  the caller leaves out (\<open>None\<close> here) and raises on a violated \<^verbatim>\<open>Field\<close> constraint;
  \<^verbatim>\<open>model_dump()\<close> lists the fields in declaration order. The field \<^verbatim>\<open>includes\<close> is
  written \<open>includes'\<close>, the plain name being reserved.
\<close>

record Trip =
  title :: string
  trip_type :: string
  description :: string
  location :: string
  price_per_person :: pyfloat
  capacity :: int
  duration_hours :: pyfloat
  highlights :: "string list"
  includes' :: "string list"
  images :: "string list"
  is_active :: bool

definition list_default :: "string list option \<Rightarrow> string list" where
  "list_default l = (case l of None \<Rightarrow> [] | Some xs \<Rightarrow> xs)"

definition Trip_init ::
  "string \<Rightarrow> string \<Rightarrow> string \<Rightarrow> string \<Rightarrow> pyfloat \<Rightarrow> int \<Rightarrow> pyfloat \<Rightarrow>
   string list option \<Rightarrow> string list option \<Rightarrow> string list option \<Rightarrow> bool option \<Rightarrow>
   error + Trip" where
  "Trip_init ti tt de lo pr ca du hi inc im act =
     (if \<not> 0 \<le> fval pr then Inl (PydanticValidationError ''price_per_person'')
      else if \<not> 1 \<le> ca then Inl (PydanticValidationError ''capacity'')
      else if \<not> 0 < fval du then Inl (PydanticValidationError ''duration_hours'')
      else Inr \<lparr> title = ti, trip_type = tt, description = de, location = lo,
                 price_per_person = pr, capacity = ca, duration_hours = du,
                 highlights = list_default hi, includes' = list_default inc,
                 images = list_default im,
                 is_active = (case act of None \<Rightarrow> True | Some b \<Rightarrow> b) \<rparr>)"

definition Trip_model_dump :: "Trip \<Rightarrow> document" where
  "Trip_model_dump t =
     [(''title'', VStr (title t)),
      (''trip_type'', VStr (trip_type t)),
      (''description'', VStr (description t)),
      (''location'', VStr (location t)),
      (''price_per_person'', VFloat (price_per_person t)),
      (''capacity'', VInt (capacity t)),
      (''duration_hours'', VFloat (duration_hours t)),
      (''highlights'', VList (map VStr (highlights t))),
      (''includes'', VList (map VStr (includes' t))),
      (''images'', VList (map VStr (images t))),
      (''is_active'', VBool (is_active t))]"

text \<open>
  \<^verbatim>\<open>Booking\<close>. The syntax check of \<^verbatim>\<open>EmailStr\<close> belongs to pydantic's e-mail validator
  and is a parameter. The record fields carry the prefix \<open>b_\<close> because \<open>trip_type\<close> is
  already a field of \<open>Trip\<close>.
\<close>

record Booking =
  b_trip_type :: string
  b_name :: string
  b_email :: string
  b_phone :: string
  b_date :: date
  b_people_count :: int
  b_notes :: "string option"
  b_status :: string

definition Booking_init ::
  "(string \<Rightarrow> bool) \<Rightarrow> string \<Rightarrow> string \<Rightarrow> string \<Rightarrow> string \<Rightarrow> date \<Rightarrow> int \<Rightarrow>
   string option \<Rightarrow> string option \<Rightarrow> error + Booking" where
  "Booking_init EmailStr tt na em ph da pc no st =
     (if \<not> EmailStr em then Inl (PydanticValidationError ''email'')
      else if \<not> 1 \<le> pc then Inl (PydanticValidationError ''people_count'')
      else Inr \<lparr> b_trip_type = tt, b_name = na, b_email = em, b_phone = ph, b_date = da,
                 b_people_count = pc, b_notes = no,
                 b_status = (case st of None \<Rightarrow> ''pending'' | Some s \<Rightarrow> s) \<rparr>)"

definition Booking_model_dump :: "Booking \<Rightarrow> document" where
  "Booking_model_dump b =
     [(''trip_type'', VStr (b_trip_type b)),
      (''name'', VStr (b_name b)),
      (''email'', VStr (b_email b)),
      (''phone'', VStr (b_phone b)),
      (''date'', VDate (b_date b)),
      (''people_count'', VInt (b_people_count b)),
      (''notes'', (case b_notes b of None \<Rightarrow> VNone | Some s \<Rightarrow> VStr s)),
      (''status'', VStr (b_status b))]"

section \<open>The document store\<close>

text \<open>
  Modelled from the spec: the module \<^verbatim>\<open>database\<close> (the handle \<^verbatim>\<open>db\<close> and the helpers
  \<^verbatim>\<open>get_documents\<close> and \<^verbatim>\<open>create_document\<close>) is imported by \<^verbatim>\<open>main.py\<close> but is not among
  the source files. The specification's collaborator contract is: collections are named,
  a missing collection is empty, every stored document is keyed by a store-generated
  unique identifier; \<^verbatim>\<open>count(collection, filter)\<close>, \<^verbatim>\<open>find_one(collection, filter)\<close>,
  \<^verbatim>\<open>find_many(collection, filter, limit)\<close> in store-native order,
  \<^verbatim>\<open>insert_one(collection, document)\<close> returning the generated identifier, and
  \<^verbatim>\<open>insert_many\<close>. A filter holds field/value pairs and selects the documents that
  store each of these fields with an equal value. Store-native order is insertion order,
  and identifiers are generated from a counter.
\<close>

record database =
  collections :: "(string \<times> document list) list"
  next_id :: "96 word"

definition collection :: "database \<Rightarrow> string \<Rightarrow> document list" where
  "collection db name = (case map_of (collections db) name of None \<Rightarrow> [] | Some ds \<Rightarrow> ds)"

fun put_collection ::
  "(string \<times> document list) list \<Rightarrow> string \<Rightarrow> document list \<Rightarrow> (string \<times> document list) list" where
  "put_collection [] name ds = [(name, ds)]"
| "put_collection ((n, ds') # cs) name ds =
     (if n = name then (name, ds) # cs else (n, ds') # put_collection cs name ds)"

definition matches :: "document \<Rightarrow> document \<Rightarrow> bool" where
  "matches flt d = list_all (\<lambda>(k, v). map_of d k = Some v) flt"

definition count_documents :: "database \<Rightarrow> string \<Rightarrow> document \<Rightarrow> nat" where
  "count_documents db name flt = length (filter (matches flt) (collection db name))"

definition find_one :: "database \<Rightarrow> string \<Rightarrow> document \<Rightarrow> document option" where
  "find_one db name flt = find (matches flt) (collection db name)"

definition insert_one :: "database \<Rightarrow> string \<Rightarrow> document \<Rightarrow> ObjectId \<times> database" where
  "insert_one db name d =
     (let i = ObjectId (next_id db)
      in (i, \<lparr> collections =
                 put_collection (collections db) name
                   (collection db name @ [(''_id'', VObjectId i) # d]),
               next_id = next_id db + 1 \<rparr>))"

fun insert_many :: "database \<Rightarrow> string \<Rightarrow> document list \<Rightarrow> database" where
  "insert_many db name [] = db"
| "insert_many db name (d # ds) = insert_many (snd (insert_one db name d)) name ds"

text \<open>
  \<^verbatim>\<open>get_documents(collection_name, filter, limit)\<close>: the specification's
  \<^verbatim>\<open>find_many\<close>; no limit when the caller gives none.
\<close>

definition get_documents :: "database \<Rightarrow> string \<Rightarrow> document \<Rightarrow> nat option \<Rightarrow> document list" where
  "get_documents db name flt limit =
     (let ds = filter (matches flt) (collection db name)
      in case limit of None \<Rightarrow> ds | Some n \<Rightarrow> take n ds)"

text \<open>
  \<^verbatim>\<open>create_document(collection_name, payload)\<close>: persists the dumped payload with
  \<^verbatim>\<open>insert_one\<close> and returns the generated identifier, rendered as a string as every
  identifier in a response is.
\<close>

definition create_document :: "database \<Rightarrow> string \<Rightarrow> document \<Rightarrow> string \<times> database" where
  "create_document db name d =
     (let (i, db') = insert_one db name d in (str_ObjectId i, db'))"

section \<open>The handlers (\<^verbatim>\<open>src/main.py\<close>)\<close>

subsection \<open>\<^verbatim>\<open>oid\<close>\<close>

text \<open>
  \<^verbatim>\<open>ObjectId(id_str)\<close> is the constructor of the \<^verbatim>\<open>bson\<close> library: it returns the parsed
  identifier or raises. It is the parameter \<open>parse\<close>; \<^verbatim>\<open>except Exception\<close> replaces
  whatever it raises.
\<close>

definition oid :: "(string \<Rightarrow> 'e + ObjectId) \<Rightarrow> string \<Rightarrow> error + ObjectId" where
  "oid parse id_str =
     (case parse id_str of
        Inr i \<Rightarrow> Inr i
      | Inl _ \<Rightarrow> Inl (HTTPException 400 ''Invalid id''))"

subsection \<open>\<^verbatim>\<open>seed\<close>\<close>

definition seed_trips :: "error + document list" where
  "seed_trips =
     (case Trip_init
             ''Dimaniyat Island Day Trip''
             ''dimaniyat''
             ''Explore the pristine Dimaniyat Islands aboard our 11.3m Looker 370 glass-bottom boat. Snorkel vibrant reefs, spot sea turtles, and enjoy a beach stop.''
             ''Dimaniyat Islands, Oman''
             (PyFloat 35 ''35.0'')
             20
             (PyFloat 5 ''5.0'')
             (Some [''Snorkeling coral reefs'',
                    ''Sea turtles and marine life'',
                    ''Beachtime on a protected island'',
                    ''Glass-bottom reef viewing''])
             (Some [''Captain & crew'', ''Snorkel gear'', ''Water & soft drinks''])
             (Some [''/images/dimaniyat-1.jpg'',
                    ''/images/dimaniyat-2.jpg'',
                    ''/images/looker370.jpg''])
             None of
        Inl e \<Rightarrow> Inl e
      | Inr t1 \<Rightarrow>
          (case Trip_init
                  ''Muscat Sunset Cruise''
                  ''sunset''
                  (''A golden-hour cruise along Muscat'' @ [CHR 0xE2, CHR 0x80, CHR 0x99]
                     @ ''s coastline aboard our Looker 370. Take in Al Alam Palace, Muttrah Corniche, and dramatic sea cliffs as the sun sets.'')
                  ''Muscat Coastline, Oman''
                  (PyFloat 20 ''20.0'')
                  10
                  (PyFloat 2 ''2.0'')
                  (Some [''Golden hour views'',
                         ''Iconic Muscat landmarks'',
                         ''Relaxed vibes on calm waters'',
                         ''Great photo opportunities''])
                  (Some [''Captain & crew'', ''Water & soft drinks''])
                  (Some [''/images/sunset-1.jpg'',
                         ''/images/sunset-2.jpg'',
                         ''/images/looker370.jpg''])
                  None of
             Inl e \<Rightarrow> Inl e
           | Inr t2 \<Rightarrow> Inr [Trip_model_dump t1, Trip_model_dump t2]))"

definition seed_faqs :: "document list" where
  "seed_faqs =
     [[(''question'', VStr ''Where do trips depart from?''),
       (''answer'', VStr ''Muscat, Oman. Exact marina details shared upon booking.''),
       (''category'', VStr ''general''),
       (''order'', VInt 1)],
      [(''question'', VStr ''How many guests can join?''),
       (''answer'', VStr ''Up to 18-20 for Dimaniyat and 8-10 for sunset trips.''),
       (''category'', VStr ''capacity''),
       (''order'', VInt 2)],
      [(''question'', VStr ''What should I bring?''),
       (''answer'', VStr ''Sunscreen, hat, towel, and swimwear. We provide water, soft drinks, and snorkel gear for day trips.''),
       (''category'', VStr ''prep''),
       (''order'', VInt 3)],
      [(''question'', VStr ''Is the glass bottom safe?''),
       (''answer'', VStr ''Yes. The Looker 370 is purpose-built with reinforced glass for reef viewing.''),
       (''category'', VStr ''safety''),
       (''order'', VInt 4)]]"

text \<open>
  The handler returns its response and the store it leaves behind. A constructor that
  raised while the Trip records are built would leave the store untouched.
\<close>

definition seed :: "database \<Rightarrow> (error + document) \<times> database" where
  "seed db =
     (case (if count_documents db ''trip'' [] = 0
            then (case seed_trips of
                    Inl e \<Rightarrow> Inl e
                  | Inr ts \<Rightarrow> Inr (insert_many db ''trip'' ts))
            else Inr db) of
        Inl e \<Rightarrow> (Inl e, db)
      | Inr db1 \<Rightarrow>
          (let db2 = (if count_documents db1 ''faq'' [] = 0
                      then insert_many db1 ''faq'' seed_faqs
                      else db1)
           in (Inr [(''status'', VStr ''ok'')], db2)))"

subsection \<open>The listings\<close>

text \<open>
  \<^verbatim>\<open>t["_id"] = str(t["_id"])\<close> for one document, and the \<^verbatim>\<open>for\<close> loop over the fetched
  list. The listings only read the store, so they return their response alone.
\<close>

definition jsonify :: "document \<Rightarrow> error + document" where
  "jsonify t =
     (case dict_getitem t ''_id'' of
        Inl e \<Rightarrow> Inl e
      | Inr v \<Rightarrow> Inr (dict_setitem t ''_id'' (VStr (py_str v))))"

fun jsonify_each :: "document list \<Rightarrow> error + document list" where
  "jsonify_each [] = Inr []"
| "jsonify_each (t # ts) =
     (case jsonify t of
        Inl e \<Rightarrow> Inl e
      | Inr t' \<Rightarrow> (case jsonify_each ts of Inl e \<Rightarrow> Inl e | Inr ts' \<Rightarrow> Inr (t' # ts')))"

definition get_trips :: "database \<Rightarrow> error + document list" where
  "get_trips db = jsonify_each (get_documents db ''trip'' [] None)"

text \<open>
  \<^verbatim>\<open>faqs.sort(key=lambda x: (x.get("order", 0), x.get("question", "")))\<close>. The key is a
  pair; \<^verbatim>\<open><\<close> on pairs compares the first components that are not \<^verbatim>\<open>==\<close>.
  \<^verbatim>\<open>list.sort\<close> is stable and uses \<^verbatim>\<open><\<close> only; it is embedded as a stable insertion sort,
  which returns the same list as any stable sort whenever the keys met are comparable,
  and raises \<^verbatim>\<open>TypeError\<close> when it meets two keys that are not.
\<close>

definition faq_key :: "document \<Rightarrow> value \<times> value" where
  "faq_key x = (dict_get_default x ''order'' (VInt 0), dict_get_default x ''question'' (VStr []))"

definition tuple_lt :: "value \<times> value \<Rightarrow> value \<times> value \<Rightarrow> error + bool" where
  "tuple_lt a b =
     (if \<not> py_eq (fst a) (fst b) then py_lt (fst a) (fst b)
      else if \<not> py_eq (snd a) (snd b) then py_lt (snd a) (snd b)
      else Inr False)"

fun insort_by :: "('a \<Rightarrow> value \<times> value) \<Rightarrow> 'a \<Rightarrow> 'a list \<Rightarrow> error + 'a list" where
  "insort_by key x [] = Inr [x]"
| "insort_by key x (y # ys) =
     (case tuple_lt (key y) (key x) of
        Inl e \<Rightarrow> Inl e
      | Inr True \<Rightarrow> (case insort_by key x ys of Inl e \<Rightarrow> Inl e | Inr zs \<Rightarrow> Inr (y # zs))
      | Inr False \<Rightarrow> Inr (x # y # ys))"

fun list_sort :: "('a \<Rightarrow> value \<times> value) \<Rightarrow> 'a list \<Rightarrow> error + 'a list" where
  "list_sort key [] = Inr []"
| "list_sort key (x # xs) =
     (case list_sort key xs of Inl e \<Rightarrow> Inl e | Inr ys \<Rightarrow> insort_by key x ys)"

definition get_faqs :: "database \<Rightarrow> error + document list" where
  "get_faqs db =
     (case jsonify_each (get_documents db ''faq'' [] (Some 100)) of
        Inl e \<Rightarrow> Inl e
      | Inr faqs \<Rightarrow> list_sort faq_key faqs)"

definition get_reviews :: "database \<Rightarrow> error + document list" where
  "get_reviews db = jsonify_each (get_documents db ''review'' [] (Some 50))"

subsection \<open>\<^verbatim>\<open>create_booking\<close>\<close>

text \<open>
  \<^verbatim>\<open>if not trip\<close> holds for \<^verbatim>\<open>None\<close> and for an empty document. The comparison reads the
  capacity with the default \<^verbatim>\<open>0\<close>, the message reads it with \<^verbatim>\<open>trip.get('capacity')\<close>,
  whose default is \<^verbatim>\<open>None\<close>.
\<close>

definition create_booking :: "database \<Rightarrow> Booking \<Rightarrow> (error + document) \<times> database" where
  "create_booking db payload =
     (case find_one db ''trip''
             [(''trip_type'', VStr (b_trip_type payload)), (''is_active'', VBool True)] of
        None \<Rightarrow> (Inl (HTTPException 404 ''Trip not found''), db)
      | Some trip \<Rightarrow>
          (if trip = [] then (Inl (HTTPException 404 ''Trip not found''), db)
           else
            case py_gt (VInt (b_people_count payload)) (dict_get_default trip ''capacity'' (VInt 0)) of
               Inl e \<Rightarrow> (Inl e, db)
             | Inr True \<Rightarrow>
                 (Inl (HTTPException 400
                         (''Maximum capacity is '' @ py_str (dict_get trip ''capacity'')
                            @ '' for this trip'')), db)
             | Inr False \<Rightarrow>
                 (let (booking_id, db') = create_document db ''booking'' (Booking_model_dump payload)
                  in (Inr [(''status'', VStr ''received''), (''id'', VStr booking_id)], db'))))"

section \<open>Example data\<close>

text \<open>
  A store with one Trip document, and a booking submission; the theorems below are
  instantiated on them.
\<close>

definition ex_trip :: "int \<Rightarrow> document" where
  "ex_trip c =
     [(''_id'', VObjectId (ObjectId 0)), (''trip_type'', VStr ''sunset''),
      (''capacity'', VInt c), (''is_active'', VBool True)]"

definition ex_store :: "document \<Rightarrow> database" where
  "ex_store t = \<lparr> collections = [(''trip'', [t])], next_id = 1 \<rparr>"

definition ex_booking :: "string \<Rightarrow> int \<Rightarrow> Booking" where
  "ex_booking tt n =
     \<lparr> b_trip_type = tt, b_name = ''Amal'', b_email = ''amal@example.com'',
       b_phone = ''+96812345678'', b_date = Date 2025 3 14, b_people_count = n,
       b_notes = None, b_status = ''pending'' \<rparr>"

definition ex_trip_no_flag :: document where
  "ex_trip_no_flag =
     [(''_id'', VObjectId (ObjectId 0)), (''trip_type'', VStr ''sunset''), (''capacity'', VInt 10)]"


section \<open>The listings and the seed data, as specified\<close>

text \<open>
  The definitions of this section are not translated from the source: they say, in the
  specification's words, what the listings and the seed routine are expected to produce,
  and the theorems below compare the handlers with them.

  \<open>render_id\<close> is a document with its identifier replaced by the identifier's string
  rendering. \<open>faq_sort_key\<close> is the specified sort key of a FAQ document: the pair of its
  \<^verbatim>\<open>order\<close> and its \<^verbatim>\<open>question\<close>, a missing \<^verbatim>\<open>order\<close> counting as 0 and a missing
  \<^verbatim>\<open>question\<close> as the empty string; pairs are ordered lexicographically, and strings
  lexicographically by character code. \<open>faq_document\<close> holds of a stored document that has
  an identifier and whose \<^verbatim>\<open>order\<close> and \<^verbatim>\<open>question\<close>, when present, have the types of the
  \<^verbatim>\<open>FAQ\<close> schema.
\<close>

definition render_id :: "document \<Rightarrow> document" where
  "render_id t = dict_setitem t ''_id'' (VStr (py_str (dict_get t ''_id'')))"



text \<open>
  The two Trip documents that the seed routine is expected to store, written out field by
  field (without the identifier that the store adds).
\<close>

definition dimaniyat_trip :: document where
  "dimaniyat_trip =
     [(''title'', VStr ''Dimaniyat Island Day Trip''),
      (''trip_type'', VStr ''dimaniyat''),
      (''description'', VStr ''Explore the pristine Dimaniyat Islands aboard our 11.3m Looker 370 glass-bottom boat. Snorkel vibrant reefs, spot sea turtles, and enjoy a beach stop.''),
      (''location'', VStr ''Dimaniyat Islands, Oman''),
      (''price_per_person'', VFloat (PyFloat 35 ''35.0'')),
      (''capacity'', VInt 20),
      (''duration_hours'', VFloat (PyFloat 5 ''5.0'')),
      (''highlights'', VList [VStr ''Snorkeling coral reefs'',
                              VStr ''Sea turtles and marine life'',
                              VStr ''Beachtime on a protected island'',
                              VStr ''Glass-bottom reef viewing'']),
      (''includes'', VList [VStr ''Captain & crew'', VStr ''Snorkel gear'',
                            VStr ''Water & soft drinks'']),
      (''images'', VList [VStr ''/images/dimaniyat-1.jpg'',
                          VStr ''/images/dimaniyat-2.jpg'',
                          VStr ''/images/looker370.jpg'']),
      (''is_active'', VBool True)]"

definition sunset_trip :: document where
  "sunset_trip =
     [(''title'', VStr ''Muscat Sunset Cruise''),
      (''trip_type'', VStr ''sunset''),
      (''description'', VStr (''A golden-hour cruise along Muscat'' @ [CHR 0xE2, CHR 0x80, CHR 0x99]
          @ ''s coastline aboard our Looker 370. Take in Al Alam Palace, Muttrah Corniche, and dramatic sea cliffs as the sun sets.'')),
      (''location'', VStr ''Muscat Coastline, Oman''),
      (''price_per_person'', VFloat (PyFloat 20 ''20.0'')),
      (''capacity'', VInt 10),
      (''duration_hours'', VFloat (PyFloat 2 ''2.0'')),
      (''highlights'', VList [VStr ''Golden hour views'',
                              VStr ''Iconic Muscat landmarks'',
                              VStr ''Relaxed vibes on calm waters'',
                              VStr ''Great photo opportunities'']),
      (''includes'', VList [VStr ''Captain & crew'', VStr ''Water & soft drinks'']),
      (''images'', VList [VStr ''/images/sunset-1.jpg'',
                          VStr ''/images/sunset-2.jpg'',
                          VStr ''/images/looker370.jpg'']),
      (''is_active'', VBool True)]"

text \<open>
  Example stores for the listings. \<open>ex_faqs\<close> holds FAQ documents with the orders 3, 1, 1
  and 2, the two of order 1 stored with the questions \<^verbatim>\<open>b\<close> and \<^verbatim>\<open>a\<close> in this order, and
  a fifth document without \<^verbatim>\<open>order\<close> and without \<^verbatim>\<open>question\<close>. \<open>ex_faq101_store\<close> holds
  101 FAQ documents: a hundred of order 1, and after them one of order 0.
\<close>

definition ex_faqs :: "document list" where
  "ex_faqs =
     [[(''_id'', VObjectId (ObjectId 1)), (''question'', VStr ''c''), (''order'', VInt 3)],
      [(''_id'', VObjectId (ObjectId 2)), (''question'', VStr ''b''), (''order'', VInt 1)],
      [(''_id'', VObjectId (ObjectId 3)), (''question'', VStr ''a''), (''order'', VInt 1)],
      [(''_id'', VObjectId (ObjectId 4)), (''question'', VStr ''d''), (''order'', VInt 2)],
      [(''_id'', VObjectId (ObjectId 5)), (''answer'', VStr ''Yes.'')]]"

definition ex_review :: document where
  "ex_review =
     [(''_id'', VObjectId (ObjectId 6)), (''name'', VStr ''Amal''), (''rating'', VInt 5),
      (''comment'', VStr ''Great''), (''trip_type'', VNone)]"

definition ex_listing_store :: database where
  "ex_listing_store =
     \<lparr> collections = [(''trip'', [ex_trip 10]), (''faq'', ex_faqs), (''review'', [ex_review])],
       next_id = 7 \<rparr>"



section \<open>Lemmas about the store and the primitives\<close>

lemma find_one_Some: "find_one db name flt = Some d \<Longrightarrow> d \<in> set (collection db name) \<and> matches flt d"
  unfolding find_one_def by (auto simp: find_Some_iff)

lemma find_one_None_iff: "find_one db name flt = None \<longleftrightarrow> (\<forall>d \<in> set (collection db name). \<not> matches flt d)"
  unfolding find_one_def by (auto simp: find_None_iff)

lemma matches_booking_filter:
  "matches [(''trip_type'', VStr tt), (''is_active'', VBool True)] d \<longleftrightarrow>
     map_of d ''trip_type'' = Some (VStr tt) \<and> map_of d ''is_active'' = Some (VBool True)"
  by (simp add: matches_def)

lemma py_gt_int: "py_gt (VInt p) (VInt c) = Inr (c < p)"
  by (simp add: py_gt_def num_of_def)

lemma map_of_put_collection:
  "map_of (put_collection cs name ds) n = (if n = name then Some ds else map_of cs n)"
  by (induction cs name ds rule: put_collection.induct) auto

lemma collection_insert_one:
  "collection (snd (insert_one db name d)) n =
     (if n = name then collection db name @ [(''_id'', VObjectId (ObjectId (next_id db))) # d]
      else collection db n)"
  by (simp add: insert_one_def collection_def map_of_put_collection Let_def)

lemma next_id_insert_one: "next_id (snd (insert_one db name d)) = next_id db + 1"
  by (simp add: insert_one_def Let_def)

lemma fst_insert_one: "fst (insert_one db name d) = ObjectId (next_id db)"
  by (simp add: insert_one_def Let_def)

lemma create_document_eq:
  "create_document db name d = (str_ObjectId (ObjectId (next_id db)), snd (insert_one db name d))"
  by (simp add: create_document_def insert_one_def Let_def)

lemma str_int_10: "str_int 10 = ''10''"
  by code_simp

lemma ex_find:
  "find_one (ex_store (ex_trip c)) ''trip'' [(''trip_type'', VStr ''sunset''), (''is_active'', VBool True)]
     = Some (ex_trip c)"
  by (simp add: find_one_def ex_store_def ex_trip_def collection_def matches_def)

lemma str_ObjectId_1: "str_ObjectId (ObjectId 1) = ''000000000000000000000001''"
  by (simp add: str_ObjectId_def hex_char_def upt_rec)

lemma create_booking_not_found:
  assumes "\<forall>t \<in> set (collection db ''trip'').
             \<not> (map_of t ''trip_type'' = Some (VStr (b_trip_type payload)) \<and>
                map_of t ''is_active'' = Some (VBool True))"
  shows "create_booking db payload = (Inl (HTTPException 404 ''Trip not found''), db)"
proof -
  have "find_one db ''trip'' [(''trip_type'', VStr (b_trip_type payload)), (''is_active'', VBool True)] = None"
    using assms unfolding find_one_None_iff matches_booking_filter by blast
  then show ?thesis by (simp add: create_booking_def)
qed


section \<open>Lemmas about the listings\<close>

lemma map_of_dict_setitem:
  "map_of (dict_setitem d k v) k' = (if k' = k then Some v else map_of d k')"
  by (induction d k v rule: dict_setitem.induct) auto

lemma jsonify_Inr:
  "jsonify t = Inr d \<longleftrightarrow>
     (\<exists>v. map_of t ''_id'' = Some v \<and> d = dict_setitem t ''_id'' (VStr (py_str v)))"
  by (auto simp: jsonify_def dict_getitem_def split: option.splits)

lemma jsonify_render_id: "map_of t ''_id'' \<noteq> None \<Longrightarrow> jsonify t = Inr (render_id t)"
  by (auto simp: jsonify_def dict_getitem_def render_id_def dict_get_def)

lemma jsonify_each_render_id:
  "\<forall>t \<in> set ts. map_of t ''_id'' \<noteq> None \<Longrightarrow> jsonify_each ts = Inr (map render_id ts)"
  by (induction ts) (simp_all add: jsonify_render_id)

lemma jsonify_each_Inr:
  "jsonify_each ts = Inr ds \<Longrightarrow>
     (\<forall>t \<in> set ts. map_of t ''_id'' \<noteq> None) \<and> ds = map render_id ts"
proof (induction ts arbitrary: ds)
  case Nil
  then show ?case by simp
next
  case (Cons t ts)
  from Cons.prems obtain t' ts' where a: "jsonify t = Inr t'" and b: "jsonify_each ts = Inr ts'"
    and c: "ds = t' # ts'"
    by (auto split: sum.splits)
  from a have "map_of t ''_id'' \<noteq> None" "t' = render_id t"
    by (auto simp: jsonify_Inr render_id_def dict_get_def)
  with Cons.IH [OF b] c show ?case by simp
qed

lemma render_id_id:
  "map_of t ''_id'' = Some v \<Longrightarrow> map_of (render_id t) ''_id'' = Some (VStr (py_str v))"
  by (simp add: render_id_def map_of_dict_setitem dict_get_def)



lemma rendered_ids:
  assumes "jsonify_each ts = Inr ds" and "d \<in> set ds"
  shows "\<exists>t \<in> set ts. \<exists>v. map_of t ''_id'' = Some v \<and>
           map_of d ''_id'' = Some (VStr (py_str v))"
proof -
  from jsonify_each_Inr [OF assms(1)]
  have a: "\<forall>t \<in> set ts. map_of t ''_id'' \<noteq> None" and b: "ds = map render_id ts"
    by simp_all
  from assms(2) b obtain t where t: "t \<in> set ts" and dt: "d = render_id t"
    by auto
  from a t obtain v where v: "map_of t ''_id'' = Some v"
    by auto
  have "map_of d ''_id'' = Some (VStr (py_str v))"
    unfolding dt by (rule render_id_id [OF v])
  with t v show ?thesis
    by (intro bexI [of _ t] exI [of _ v] conjI)
qed


lemma matches_empty: "matches [] d"
  by (simp add: matches_def)


lemma set_insort_by: "insort_by key x ys = Inr zs \<Longrightarrow> set zs = insert x (set ys)"
proof (induction ys arbitrary: zs)
  case Nil
  then show ?case by auto
next
  case (Cons y ys)
  show ?case
  proof (cases "tuple_lt (key y) (key x)")
    case (Inl e)
    with Cons.prems show ?thesis by simp
  next
    case (Inr b)
    show ?thesis
    proof (cases b)
      case True
      show ?thesis
      proof (cases "insort_by key x ys")
        case (Inl e)
        with Cons.prems Inr True show ?thesis by simp
      next
        case r: (Inr zs')
        with Cons.prems Inr True have z: "zs = y # zs'" by simp
        from Cons.IH [OF r] have "set zs' = insert x (set ys)" .
        with z show ?thesis by auto
      qed
    next
      case False
      with Cons.prems Inr have "zs = x # y # ys" by simp
      then show ?thesis by auto
    qed
  qed
qed

lemma set_list_sort: "list_sort key xs = Inr ys \<Longrightarrow> set ys = set xs"
proof (induction xs arbitrary: ys)
  case Nil
  then show ?case by simp
next
  case (Cons x xs)
  show ?case
  proof (cases "list_sort key xs")
    case (Inl e)
    with Cons.prems show ?thesis by simp
  next
    case (Inr ws)
    with Cons.prems have "insort_by key x ws = Inr ys" by simp
    from set_insort_by [OF this] Cons.IH [OF Inr] show ?thesis by simp
  qed
qed

lemma get_faqs_Inr:
  assumes "get_faqs db = Inr docs"
  shows "\<exists>js. jsonify_each (get_documents db ''faq'' [] (Some 100)) = Inr js \<and> set docs = set js"
proof (cases "jsonify_each (get_documents db ''faq'' [] (Some 100))")
  case (Inl e)
  with assms show ?thesis by (simp add: get_faqs_def)
next
  case (Inr js)
  with assms have "list_sort faq_key js = Inr docs" by (simp add: get_faqs_def)
  from set_list_sort [OF this] Inr show ?thesis by simp
qed









section \<open>Lemmas about the seed routine\<close>

lemma count_documents_all: "count_documents db name [] = length (collection db name)"
  by (simp add: count_documents_def matches_empty)

lemma seed_trips_eq: "seed_trips = Inr [dimaniyat_trip, sunset_trip]"
  by (simp add: seed_trips_def Trip_init_def Trip_model_dump_def list_default_def
        dimaniyat_trip_def sunset_trip_def)

lemma seed_faqs_nth: "seed_faqs = [seed_faqs ! 0, seed_faqs ! 1, seed_faqs ! 2, seed_faqs ! 3]"
  by (simp add: seed_faqs_def)

lemma collection_insert_many2:
  "collection (insert_many db name [a, b]) n =
     (if n = name
      then collection db name @
             [(''_id'', VObjectId (ObjectId (next_id db))) # a,
              (''_id'', VObjectId (ObjectId (next_id db + 1))) # b]
      else collection db n)"
  by (simp add: collection_insert_one next_id_insert_one)

lemma next_id_insert_many2: "next_id (insert_many db name [a, b]) = next_id db + 2"
  by (simp add: next_id_insert_one)

lemma collection_insert_many4:
  "collection (insert_many db name [a, b, c, d]) n =
     (if n = name
      then collection db name @
             [(''_id'', VObjectId (ObjectId (next_id db))) # a,
              (''_id'', VObjectId (ObjectId (next_id db + 1))) # b,
              (''_id'', VObjectId (ObjectId (next_id db + 2))) # c,
              (''_id'', VObjectId (ObjectId (next_id db + 3))) # d]
      else collection db n)"
  by (simp add: collection_insert_one next_id_insert_one)

lemma seed_eq:
  "seed db =
     (Inr [(''status'', VStr ''ok'')],
      (let db1 = (if collection db ''trip'' = []
                  then insert_many db ''trip'' [dimaniyat_trip, sunset_trip] else db)
       in if collection db1 ''faq'' = [] then insert_many db1 ''faq'' seed_faqs else db1))"
  by (simp add: seed_def count_documents_all seed_trips_eq Let_def)

lemma seed_noop:
  "collection db ''trip'' \<noteq> [] \<Longrightarrow> collection db ''faq'' \<noteq> [] \<Longrightarrow>
     seed db = (Inr [(''status'', VStr ''ok'')], db)"
  by (simp add: seed_eq)

lemma collection_seed:
  "collection (snd (seed db)) n =
     (if n = ''trip'' \<and> collection db ''trip'' = [] then
        [(''_id'', VObjectId (ObjectId (next_id db))) # dimaniyat_trip,
         (''_id'', VObjectId (ObjectId (next_id db + 1))) # sunset_trip]
      else if n = ''faq'' \<and> collection db ''faq'' = [] then
        [(''_id'', VObjectId (ObjectId
            (next_id db + (if collection db ''trip'' = [] then 2 else 0)))) # seed_faqs ! 0,
         (''_id'', VObjectId (ObjectId
            (next_id db + (if collection db ''trip'' = [] then 2 else 0) + 1))) # seed_faqs ! 1,
         (''_id'', VObjectId (ObjectId
            (next_id db + (if collection db ''trip'' = [] then 2 else 0) + 2))) # seed_faqs ! 2,
         (''_id'', VObjectId (ObjectId
            (next_id db + (if collection db ''trip'' = [] then 2 else 0) + 3))) # seed_faqs ! 3]
      else collection db n)"
proof -
  let ?db1 = "if collection db ''trip'' = []
              then insert_many db ''trip'' [dimaniyat_trip, sunset_trip] else db"
  have s: "snd (seed db) =
      (if collection ?db1 ''faq'' = [] then insert_many ?db1 ''faq'' seed_faqs else ?db1)"
    by (simp add: seed_eq Let_def)
  have c1: "collection ?db1 m =
      (if m = ''trip'' \<and> collection db ''trip'' = [] then
         [(''_id'', VObjectId (ObjectId (next_id db))) # dimaniyat_trip,
          (''_id'', VObjectId (ObjectId (next_id db + 1))) # sunset_trip]
       else collection db m)" for m
    by (simp add: collection_insert_many2 del: insert_many.simps)
  have n1: "next_id ?db1 = next_id db + (if collection db ''trip'' = [] then 2 else 0)"
    by (simp add: next_id_insert_many2 del: insert_many.simps)
  have f1: "collection ?db1 ''faq'' = collection db ''faq''"
    unfolding c1 by simp
  have c2: "collection (insert_many ?db1 ''faq'' seed_faqs) m =
      (if m = ''faq''
       then collection ?db1 ''faq'' @
              [(''_id'', VObjectId (ObjectId (next_id ?db1))) # seed_faqs ! 0,
               (''_id'', VObjectId (ObjectId (next_id ?db1 + 1))) # seed_faqs ! 1,
               (''_id'', VObjectId (ObjectId (next_id ?db1 + 2))) # seed_faqs ! 2,
               (''_id'', VObjectId (ObjectId (next_id ?db1 + 3))) # seed_faqs ! 3]
       else collection ?db1 m)" for m
    using collection_insert_many4
      [of ?db1 "''faq''" "seed_faqs ! 0" "seed_faqs ! 1" "seed_faqs ! 2" "seed_faqs ! 3" m]
    unfolding seed_faqs_nth [symmetric] .
  show ?thesis
  proof (cases "collection db ''faq'' = []")
    case True
    have sd: "snd (seed db) = insert_many ?db1 ''faq'' seed_faqs"
      unfolding s f1 using True by simp
    show ?thesis
      unfolding sd c2 f1 n1 c1 using True by simp
  next
    case False
    have sd: "snd (seed db) = ?db1"
      unfolding s f1 using False by simp
    show ?thesis
      unfolding sd c1 using False by simp
  qed
qed

section \<open>Booking creation\<close>

text \<open>
  Claim C1. When the lookup of \<^verbatim>\<open>create_booking\<close> finds a Trip document (equal
  \<^verbatim>\<open>trip_type\<close>, \<^verbatim>\<open>is_active\<close> true) whose capacity is the integer \<open>C\<close> and the
  submission's \<^verbatim>\<open>people_count\<close> exceeds \<open>C\<close>, the handler raises the 400 error whose
  detail is exactly \<^verbatim>\<open>Maximum capacity is C for this trip\<close>, with \<open>C\<close> in decimal, and the
  store is left as it was: no Booking document is written.
\<close>

theorem booking_over_capacity:
  assumes found: "find_one db ''trip''
             [(''trip_type'', VStr (b_trip_type payload)), (''is_active'', VBool True)] = Some trip"
    and cap: "map_of trip ''capacity'' = Some (VInt C)"
    and over: "C < b_people_count payload"
  shows "create_booking db payload =
           (Inl (HTTPException 400 (''Maximum capacity is '' @ str_int C @ '' for this trip'')), db)"
proof -
  have ne: "trip \<noteq> []" using cap by auto
  have g: "dict_get_default trip ''capacity'' (VInt 0) = VInt C" "dict_get trip ''capacity'' = VInt C"
    using cap by (simp_all add: dict_get_default_def dict_get_def)
  show ?thesis
    unfolding create_booking_def found using ne over
    by (simp add: g py_gt_int py_str_def)
qed

theorem booking_over_capacity_witness:
  "find_one (ex_store (ex_trip 10)) ''trip''
      [(''trip_type'', VStr (b_trip_type (ex_booking ''sunset'' 11))), (''is_active'', VBool True)]
      = Some (ex_trip 10) \<and>
   map_of (ex_trip 10) ''capacity'' = Some (VInt 10) \<and>
   10 < b_people_count (ex_booking ''sunset'' 11) \<and>
   create_booking (ex_store (ex_trip 10)) (ex_booking ''sunset'' 11) =
     (Inl (HTTPException 400 ''Maximum capacity is 10 for this trip''), ex_store (ex_trip 10))"
proof -
  have h1: "find_one (ex_store (ex_trip 10)) ''trip''
      [(''trip_type'', VStr (b_trip_type (ex_booking ''sunset'' 11))), (''is_active'', VBool True)]
      = Some (ex_trip 10)"
    using ex_find [of 10] by (simp add: ex_booking_def)
  have h2: "map_of (ex_trip 10) ''capacity'' = Some (VInt 10)"
    by (simp add: ex_trip_def)
  have h3: "10 < b_people_count (ex_booking ''sunset'' 11)"
    by (simp add: ex_booking_def)
  show ?thesis using h1 h2 h3 booking_over_capacity [OF h1 h2 h3] by (simp add: str_int_10)
qed

text \<open>
  Claim C2. When no Trip document of the store has both the submission's \<^verbatim>\<open>trip_type\<close>
  and \<^verbatim>\<open>is_active\<close> true, \<^verbatim>\<open>create_booking\<close> raises the 404 error
  \<^verbatim>\<open>Trip not found\<close> and leaves the store as it was, whatever the submission's
  \<^verbatim>\<open>people_count\<close> is.
\<close>

theorem booking_trip_not_found:
  assumes "\<forall>t \<in> set (collection db ''trip'').
             \<not> (map_of t ''trip_type'' = Some (VStr (b_trip_type payload)) \<and>
                map_of t ''is_active'' = Some (VBool True))"
  shows "create_booking db payload = (Inl (HTTPException 404 ''Trip not found''), db)"
proof -
  have "find_one db ''trip'' [(''trip_type'', VStr (b_trip_type payload)), (''is_active'', VBool True)] = None"
    using assms unfolding find_one_None_iff matches_booking_filter by blast
  then show ?thesis by (simp add: create_booking_def)
qed

theorem booking_trip_not_found_witness:
  "collection (ex_store (ex_trip 10)) ''trip'' = [ex_trip 10] \<and>
   map_of (ex_trip 10) ''trip_type'' \<noteq> Some (VStr (b_trip_type (ex_booking ''unknown'' 1))) \<and>
   create_booking (ex_store (ex_trip 10)) (ex_booking ''unknown'' 1) =
     (Inl (HTTPException 404 ''Trip not found''), ex_store (ex_trip 10))"
proof -
  have c: "collection (ex_store (ex_trip 10)) ''trip'' = [ex_trip 10]"
    by (simp add: collection_def ex_store_def)
  have t: "map_of (ex_trip 10) ''trip_type'' \<noteq> Some (VStr (b_trip_type (ex_booking ''unknown'' 1)))"
    by (simp add: ex_trip_def ex_booking_def)
  have h: "\<forall>t \<in> set (collection (ex_store (ex_trip 10)) ''trip'').
       \<not> (map_of t ''trip_type'' = Some (VStr (b_trip_type (ex_booking ''unknown'' 1))) \<and>
          map_of t ''is_active'' = Some (VBool True))"
    using c t by simp
  show ?thesis using c t booking_trip_not_found [OF h] by simp
qed

text \<open>
  Claim C3. When the lookup finds a Trip document whose capacity is the integer \<open>C\<close> and
  the submission's \<^verbatim>\<open>people_count\<close> is at most \<open>C\<close>, \<^verbatim>\<open>create_booking\<close> answers with
  the status \<^verbatim>\<open>received\<close> and the identifier the store generated, and the \<^verbatim>\<open>booking\<close>
  collection gains exactly one document: under that identifier, the submission's
  \<^verbatim>\<open>trip_type\<close>, \<^verbatim>\<open>name\<close>, \<^verbatim>\<open>email\<close>, \<^verbatim>\<open>phone\<close>, \<^verbatim>\<open>date\<close>, \<^verbatim>\<open>people_count\<close>,
  \<^verbatim>\<open>notes\<close> and \<^verbatim>\<open>status\<close>, each with the submitted value. The other collections are
  unchanged. For a submission that the schema built from a request without a status, the
  stored document holds the request's fields and the \<^verbatim>\<open>status\<close> \<^verbatim>\<open>pending\<close>.
\<close>

theorem booking_persisted:
  assumes found: "find_one db ''trip''
             [(''trip_type'', VStr (b_trip_type payload)), (''is_active'', VBool True)] = Some trip"
    and cap: "map_of trip ''capacity'' = Some (VInt C)"
    and fits: "b_people_count payload \<le> C"
  shows "fst (create_booking db payload) =
            Inr [(''status'', VStr ''received''),
                 (''id'', VStr (str_ObjectId (ObjectId (next_id db))))] \<and>
         collection (snd (create_booking db payload)) ''booking'' =
            collection db ''booking''
              @ [[(''_id'', VObjectId (ObjectId (next_id db))),
                  (''trip_type'', VStr (b_trip_type payload)),
                  (''name'', VStr (b_name payload)),
                  (''email'', VStr (b_email payload)),
                  (''phone'', VStr (b_phone payload)),
                  (''date'', VDate (b_date payload)),
                  (''people_count'', VInt (b_people_count payload)),
                  (''notes'', (case b_notes payload of None \<Rightarrow> VNone | Some s \<Rightarrow> VStr s)),
                  (''status'', VStr (b_status payload))]] \<and>
         (\<forall>n. n \<noteq> ''booking'' \<longrightarrow>
              collection (snd (create_booking db payload)) n = collection db n) \<and>
         (\<forall>EmailStr tt na em ph da pc no.
              Booking_init EmailStr tt na em ph da pc no None = Inr payload \<longrightarrow>
              last (collection (snd (create_booking db payload)) ''booking'') =
                [(''_id'', VObjectId (ObjectId (next_id db))),
                 (''trip_type'', VStr tt),
                 (''name'', VStr na),
                 (''email'', VStr em),
                 (''phone'', VStr ph),
                 (''date'', VDate da),
                 (''people_count'', VInt pc),
                 (''notes'', (case no of None \<Rightarrow> VNone | Some s \<Rightarrow> VStr s)),
                 (''status'', VStr ''pending'')])"
proof -
  have ne: "trip \<noteq> []" using cap by auto
  have g: "dict_get_default trip ''capacity'' (VInt 0) = VInt C"
    using cap by (simp add: dict_get_default_def)
  have run: "create_booking db payload =
            (Inr [(''status'', VStr ''received''),
                  (''id'', VStr (str_ObjectId (ObjectId (next_id db))))],
             snd (insert_one db ''booking'' (Booking_model_dump payload)))"
    unfolding create_booking_def found using ne fits
    by (simp add: g py_gt_int create_document_eq)
  have built:
    "Booking_init EmailStr tt na em ph da pc no None = Inr payload \<Longrightarrow>
       Booking_model_dump payload =
         [(''trip_type'', VStr tt), (''name'', VStr na), (''email'', VStr em),
          (''phone'', VStr ph), (''date'', VDate da), (''people_count'', VInt pc),
          (''notes'', (case no of None \<Rightarrow> VNone | Some s \<Rightarrow> VStr s)),
          (''status'', VStr ''pending'')]"
    for EmailStr tt na em ph da pc no
    by (auto simp: Booking_init_def Booking_model_dump_def split: if_splits)
  have stored: "collection (snd (create_booking db payload)) ''booking'' =
      collection db ''booking''
        @ [(''_id'', VObjectId (ObjectId (next_id db))) # Booking_model_dump payload]"
    unfolding run by (simp add: collection_insert_one)
  have others: "\<forall>n. n \<noteq> ''booking'' \<longrightarrow>
      collection (snd (create_booking db payload)) n = collection db n"
    unfolding run by (simp add: collection_insert_one)
  have c1: "fst (create_booking db payload) =
            Inr [(''status'', VStr ''received''),
                 (''id'', VStr (str_ObjectId (ObjectId (next_id db))))]"
    unfolding run by simp
  have c2: "collection (snd (create_booking db payload)) ''booking'' =
            collection db ''booking''
              @ [[(''_id'', VObjectId (ObjectId (next_id db))),
                  (''trip_type'', VStr (b_trip_type payload)),
                  (''name'', VStr (b_name payload)),
                  (''email'', VStr (b_email payload)),
                  (''phone'', VStr (b_phone payload)),
                  (''date'', VDate (b_date payload)),
                  (''people_count'', VInt (b_people_count payload)),
                  (''notes'', (case b_notes payload of None \<Rightarrow> VNone | Some s \<Rightarrow> VStr s)),
                  (''status'', VStr (b_status payload))]]"
    unfolding stored by (simp add: Booking_model_dump_def)
  have c4: "\<forall>EmailStr tt na em ph da pc no.
              Booking_init EmailStr tt na em ph da pc no None = Inr payload \<longrightarrow>
              last (collection (snd (create_booking db payload)) ''booking'') =
                [(''_id'', VObjectId (ObjectId (next_id db))),
                 (''trip_type'', VStr tt),
                 (''name'', VStr na),
                 (''email'', VStr em),
                 (''phone'', VStr ph),
                 (''date'', VDate da),
                 (''people_count'', VInt pc),
                 (''notes'', (case no of None \<Rightarrow> VNone | Some s \<Rightarrow> VStr s)),
                 (''status'', VStr ''pending'')]"
    unfolding stored by (simp add: built)
  show ?thesis by (intro conjI c1 c2 others c4)
qed

theorem booking_persisted_witness:
  "find_one (ex_store (ex_trip 10)) ''trip''
      [(''trip_type'', VStr (b_trip_type (ex_booking ''sunset'' 10))), (''is_active'', VBool True)]
      = Some (ex_trip 10) \<and>
   map_of (ex_trip 10) ''capacity'' = Some (VInt 10) \<and>
   b_people_count (ex_booking ''sunset'' 10) \<le> 10 \<and>
   Booking_init (\<lambda>s. CHR ''@'' \<in> set s) ''sunset'' ''Amal'' ''amal@example.com''
       ''+96812345678'' (Date 2025 3 14) 10 None None = Inr (ex_booking ''sunset'' 10) \<and>
   fst (create_booking (ex_store (ex_trip 10)) (ex_booking ''sunset'' 10)) =
      Inr [(''status'', VStr ''received''), (''id'', VStr ''000000000000000000000001'')] \<and>
   collection (snd (create_booking (ex_store (ex_trip 10)) (ex_booking ''sunset'' 10))) ''booking'' =
      [[(''_id'', VObjectId (ObjectId 1)),
        (''trip_type'', VStr ''sunset''),
        (''name'', VStr ''Amal''),
        (''email'', VStr ''amal@example.com''),
        (''phone'', VStr ''+96812345678''),
        (''date'', VDate (Date 2025 3 14)),
        (''people_count'', VInt 10),
        (''notes'', VNone),
        (''status'', VStr ''pending'')]] \<and>
   collection (snd (create_booking (ex_store (ex_trip 10)) (ex_booking ''sunset'' 10))) ''trip'' =
      [ex_trip 10] \<and>
   last (collection (snd (create_booking (ex_store (ex_trip 10)) (ex_booking ''sunset'' 10)))
      ''booking'') =
      [(''_id'', VObjectId (ObjectId 1)),
       (''trip_type'', VStr ''sunset''),
       (''name'', VStr ''Amal''),
       (''email'', VStr ''amal@example.com''),
       (''phone'', VStr ''+96812345678''),
       (''date'', VDate (Date 2025 3 14)),
       (''people_count'', VInt 10),
       (''notes'', VNone),
       (''status'', VStr ''pending'')]"
proof -
  have h1: "find_one (ex_store (ex_trip 10)) ''trip''
      [(''trip_type'', VStr (b_trip_type (ex_booking ''sunset'' 10))), (''is_active'', VBool True)]
      = Some (ex_trip 10)"
    using ex_find [of 10] by (simp add: ex_booking_def)
  have h2: "map_of (ex_trip 10) ''capacity'' = Some (VInt 10)"
    by (simp add: ex_trip_def)
  have h3: "b_people_count (ex_booking ''sunset'' 10) \<le> 10"
    by (simp add: ex_booking_def)
  have h4: "Booking_init (\<lambda>s. CHR ''@'' \<in> set s) ''sunset'' ''Amal'' ''amal@example.com''
       ''+96812345678'' (Date 2025 3 14) 10 None None = Inr (ex_booking ''sunset'' 10)"
    by (simp add: Booking_init_def ex_booking_def)
  have s: "next_id (ex_store (ex_trip 10)) = 1"
          "collection (ex_store (ex_trip 10)) ''booking'' = []"
          "collection (ex_store (ex_trip 10)) ''trip'' = [ex_trip 10]"
    by (simp_all add: ex_store_def collection_def)
  have b: "b_trip_type (ex_booking ''sunset'' 10) = ''sunset''"
          "b_name (ex_booking ''sunset'' 10) = ''Amal''"
          "b_email (ex_booking ''sunset'' 10) = ''amal@example.com''"
          "b_phone (ex_booking ''sunset'' 10) = ''+96812345678''"
          "b_date (ex_booking ''sunset'' 10) = Date 2025 3 14"
          "b_people_count (ex_booking ''sunset'' 10) = 10"
          "b_notes (ex_booking ''sunset'' 10) = None"
          "b_status (ex_booking ''sunset'' 10) = ''pending''"
    by (simp_all add: ex_booking_def)
  note t = booking_persisted [OF h1 h2 h3]
  have r: "fst (create_booking (ex_store (ex_trip 10)) (ex_booking ''sunset'' 10)) =
      Inr [(''status'', VStr ''received''), (''id'', VStr ''000000000000000000000001'')]"
    using conjunct1 [OF t] by (simp add: s str_ObjectId_1)
  have c: "collection (snd (create_booking (ex_store (ex_trip 10)) (ex_booking ''sunset'' 10)))
        ''booking'' =
      [[(''_id'', VObjectId (ObjectId 1)),
        (''trip_type'', VStr ''sunset''),
        (''name'', VStr ''Amal''),
        (''email'', VStr ''amal@example.com''),
        (''phone'', VStr ''+96812345678''),
        (''date'', VDate (Date 2025 3 14)),
        (''people_count'', VInt 10),
        (''notes'', VNone),
        (''status'', VStr ''pending'')]]"
    using conjunct1 [OF conjunct2 [OF t]] unfolding s b by simp
  have o: "collection (snd (create_booking (ex_store (ex_trip 10)) (ex_booking ''sunset'' 10)))
        ''trip'' = [ex_trip 10]"
    using spec [OF conjunct1 [OF conjunct2 [OF conjunct2 [OF t]]], of "''trip''"] by (simp add: s)
  have p: "last (collection (snd (create_booking (ex_store (ex_trip 10))
        (ex_booking ''sunset'' 10))) ''booking'') =
      [(''_id'', VObjectId (ObjectId 1)),
       (''trip_type'', VStr ''sunset''),
       (''name'', VStr ''Amal''),
       (''email'', VStr ''amal@example.com''),
       (''phone'', VStr ''+96812345678''),
       (''date'', VDate (Date 2025 3 14)),
       (''people_count'', VInt 10),
       (''notes'', VNone),
       (''status'', VStr ''pending'')]"
    unfolding c by simp
  show ?thesis by (intro conjI h1 h2 h3 h4 r c o p)
qed

text \<open>
  Claim C4, evaluated on a store whose only Trip document matches the lookup and has no
  \<^verbatim>\<open>capacity\<close> field, for a submission of one person: the comparison takes the missing
  capacity as 0 and the handler raises the 400 error without writing, but the detail it
  prints is \<^verbatim>\<open>Maximum capacity is None for this trip\<close>, not
  \<^verbatim>\<open>Maximum capacity is 0 for this trip\<close>.
\<close>

theorem booking_missing_capacity:
  "create_booking
     (ex_store [(''_id'', VObjectId (ObjectId 0)), (''trip_type'', VStr ''sunset''),
                (''is_active'', VBool True)])
     (ex_booking ''sunset'' 1) =
   (Inl (HTTPException 400 ''Maximum capacity is None for this trip''),
    ex_store [(''_id'', VObjectId (ObjectId 0)), (''trip_type'', VStr ''sunset''),
              (''is_active'', VBool True)])"
  by (simp add: create_booking_def find_one_def ex_store_def collection_def matches_def
      ex_booking_def dict_get_default_def dict_get_def py_gt_int py_str_def)

text \<open>
  Claim C9. The lookup of \<^verbatim>\<open>create_booking\<close> finds only Trip documents that store
  \<^verbatim>\<open>is_active\<close> as true: when every Trip document with the submission's \<^verbatim>\<open>trip_type\<close>
  lacks the field or stores another value, the handler raises the 404 error
  \<^verbatim>\<open>Trip not found\<close> and leaves the store as it was. The schema, for its part, gives
  \<^verbatim>\<open>is_active\<close> the value true in every Trip it constructs without one.
\<close>

theorem booking_needs_stored_is_active:
  assumes "\<forall>t \<in> set (collection db ''trip'').
             map_of t ''trip_type'' = Some (VStr (b_trip_type payload)) \<longrightarrow>
             map_of t ''is_active'' \<noteq> Some (VBool True)"
  shows "create_booking db payload = (Inl (HTTPException 404 ''Trip not found''), db) \<and>
         (\<forall>ti tt de lo pr ca du hi inc im t.
             Trip_init ti tt de lo pr ca du hi inc im None = Inr t \<longrightarrow>
             is_active t \<and> map_of (Trip_model_dump t) ''is_active'' = Some (VBool True))"
proof
  show "create_booking db payload = (Inl (HTTPException 404 ''Trip not found''), db)"
    by (rule create_booking_not_found) (use assms in auto)
  show "\<forall>ti tt de lo pr ca du hi inc im t.
             Trip_init ti tt de lo pr ca du hi inc im None = Inr t \<longrightarrow>
             is_active t \<and> map_of (Trip_model_dump t) ''is_active'' = Some (VBool True)"
    by (auto simp: Trip_init_def Trip_model_dump_def split: if_splits)
qed

theorem booking_needs_stored_is_active_witness:
  "collection (ex_store ex_trip_no_flag) ''trip'' = [ex_trip_no_flag] \<and>
   map_of ex_trip_no_flag ''trip_type'' = Some (VStr (b_trip_type (ex_booking ''sunset'' 1))) \<and>
   map_of ex_trip_no_flag ''is_active'' = None \<and>
   create_booking (ex_store ex_trip_no_flag) (ex_booking ''sunset'' 1) =
     (Inl (HTTPException 404 ''Trip not found''), ex_store ex_trip_no_flag) \<and>
   (\<exists>t. Trip_init ''Muscat Sunset Cruise'' ''sunset'' ''A cruise'' ''Muscat'' (PyFloat 20 ''20.0'')
           10 (PyFloat 2 ''2.0'') None None None None = Inr t \<and>
        map_of (Trip_model_dump t) ''is_active'' = Some (VBool True))"
proof -
  have c: "collection (ex_store ex_trip_no_flag) ''trip'' = [ex_trip_no_flag]"
    by (simp add: collection_def ex_store_def)
  have t1: "map_of ex_trip_no_flag ''trip_type'' = Some (VStr (b_trip_type (ex_booking ''sunset'' 1)))"
    by (simp add: ex_trip_no_flag_def ex_booking_def)
  have t2: "map_of ex_trip_no_flag ''is_active'' = None"
    by (simp add: ex_trip_no_flag_def)
  have h: "\<forall>t \<in> set (collection (ex_store ex_trip_no_flag) ''trip'').
             map_of t ''trip_type'' = Some (VStr (b_trip_type (ex_booking ''sunset'' 1))) \<longrightarrow>
             map_of t ''is_active'' \<noteq> Some (VBool True)"
    using c t2 by simp
  note r = booking_needs_stored_is_active [OF h]
  obtain t' where i: "Trip_init ''Muscat Sunset Cruise'' ''sunset'' ''A cruise'' ''Muscat''
           (PyFloat 20 ''20.0'') 10 (PyFloat 2 ''2.0'') None None None None = Inr t'"
    by (simp add: Trip_init_def)
  have d: "map_of (Trip_model_dump t') ''is_active'' = Some (VBool True)"
    using conjunct2 [OF r] i by (elim allE impE conjE) assumption
  have e: "\<exists>t. Trip_init ''Muscat Sunset Cruise'' ''sunset'' ''A cruise'' ''Muscat''
           (PyFloat 20 ''20.0'') 10 (PyFloat 2 ''2.0'') None None None None = Inr t \<and>
        map_of (Trip_model_dump t) ''is_active'' = Some (VBool True)"
    using i d by (intro exI [of _ t'] conjI)
  show ?thesis by (intro conjI c t1 t2 conjunct1 [OF r] e)
qed

section \<open>The identifier helper\<close>

text \<open>
  Claim C8. For every string, \<^verbatim>\<open>oid\<close> returns the identifier that the parser returns,
  and it fails exactly when the parser fails, always with the 400 error \<^verbatim>\<open>Invalid id\<close>.
\<close>

theorem oid_result:
  "(\<forall>i. oid parse id_str = Inr i \<longleftrightarrow> parse id_str = Inr i) \<and>
   (\<forall>e. oid parse id_str = Inl e \<longleftrightarrow>
          (\<exists>x. parse id_str = Inl x) \<and> e = HTTPException 400 ''Invalid id'')"
  by (cases "parse id_str") (auto simp: oid_def)


section \<open>The listings\<close>

text \<open>
  Claim C7. Whatever list of documents the store hands to \<^verbatim>\<open>get_trips\<close>, \<^verbatim>\<open>get_faqs\<close>
  and \<^verbatim>\<open>get_reviews\<close>: every document of a response stores under \<^verbatim>\<open>_id\<close> a string, and
  this string is \<^verbatim>\<open>str\<close> of the identifier \<open>v\<close> that a fetched document stored under
  \<^verbatim>\<open>_id\<close>; it is never the identifier itself. Moreover \<^verbatim>\<open>get_trips\<close> and \<^verbatim>\<open>get_reviews\<close>
  do answer, with one rendered document for each fetched one and in the same order,
  whenever every fetched document has an identifier.
\<close>

theorem listing_ids_are_strings:
  "(\<forall>docs. get_trips db = Inr docs \<longrightarrow>
      (\<forall>d \<in> set docs. \<exists>t \<in> set (get_documents db ''trip'' [] None). \<exists>v.
          map_of t ''_id'' = Some v \<and> map_of d ''_id'' = Some (VStr (py_str v)))) \<and>
   (\<forall>docs. get_faqs db = Inr docs \<longrightarrow>
      (\<forall>d \<in> set docs. \<exists>t \<in> set (get_documents db ''faq'' [] (Some 100)). \<exists>v.
          map_of t ''_id'' = Some v \<and> map_of d ''_id'' = Some (VStr (py_str v)))) \<and>
   (\<forall>docs. get_reviews db = Inr docs \<longrightarrow>
      (\<forall>d \<in> set docs. \<exists>t \<in> set (get_documents db ''review'' [] (Some 50)). \<exists>v.
          map_of t ''_id'' = Some v \<and> map_of d ''_id'' = Some (VStr (py_str v)))) \<and>
   ((\<forall>t \<in> set (get_documents db ''trip'' [] None). map_of t ''_id'' \<noteq> None) \<longrightarrow>
      get_trips db = Inr (map render_id (get_documents db ''trip'' [] None))) \<and>
   ((\<forall>t \<in> set (get_documents db ''review'' [] (Some 50)). map_of t ''_id'' \<noteq> None) \<longrightarrow>
      get_reviews db = Inr (map render_id (get_documents db ''review'' [] (Some 50))))"
proof -
  have trips: "\<forall>docs. get_trips db = Inr docs \<longrightarrow>
      (\<forall>d \<in> set docs. \<exists>t \<in> set (get_documents db ''trip'' [] None). \<exists>v.
          map_of t ''_id'' = Some v \<and> map_of d ''_id'' = Some (VStr (py_str v)))"
    unfolding get_trips_def
  proof (intro allI impI ballI)
    fix docs d
    assume "jsonify_each (get_documents db ''trip'' [] None) = Inr docs" and "d \<in> set docs"
    then show "\<exists>t \<in> set (get_documents db ''trip'' [] None). \<exists>v.
          map_of t ''_id'' = Some v \<and> map_of d ''_id'' = Some (VStr (py_str v))"
      by (rule rendered_ids)
  qed
  have reviews: "\<forall>docs. get_reviews db = Inr docs \<longrightarrow>
      (\<forall>d \<in> set docs. \<exists>t \<in> set (get_documents db ''review'' [] (Some 50)). \<exists>v.
          map_of t ''_id'' = Some v \<and> map_of d ''_id'' = Some (VStr (py_str v)))"
    unfolding get_reviews_def
  proof (intro allI impI ballI)
    fix docs d
    assume "jsonify_each (get_documents db ''review'' [] (Some 50)) = Inr docs" and "d \<in> set docs"
    then show "\<exists>t \<in> set (get_documents db ''review'' [] (Some 50)). \<exists>v.
          map_of t ''_id'' = Some v \<and> map_of d ''_id'' = Some (VStr (py_str v))"
      by (rule rendered_ids)
  qed
  have faqs: "\<forall>docs. get_faqs db = Inr docs \<longrightarrow>
      (\<forall>d \<in> set docs. \<exists>t \<in> set (get_documents db ''faq'' [] (Some 100)). \<exists>v.
          map_of t ''_id'' = Some v \<and> map_of d ''_id'' = Some (VStr (py_str v)))"
  proof (intro allI impI ballI)
    fix docs d
    assume r: "get_faqs db = Inr docs" and d: "d \<in> set docs"
    from get_faqs_Inr [OF r] obtain js
      where js: "jsonify_each (get_documents db ''faq'' [] (Some 100)) = Inr js"
        and s: "set docs = set js"
      by (elim exE conjE)
    from d s have "d \<in> set js" by simp
    with js show "\<exists>t \<in> set (get_documents db ''faq'' [] (Some 100)). \<exists>v.
          map_of t ''_id'' = Some v \<and> map_of d ''_id'' = Some (VStr (py_str v))"
      by (rule rendered_ids)
  qed
  have trips_answer:
    "(\<forall>t \<in> set (get_documents db ''trip'' [] None). map_of t ''_id'' \<noteq> None) \<longrightarrow>
      get_trips db = Inr (map render_id (get_documents db ''trip'' [] None))"
    unfolding get_trips_def by (intro impI) (rule jsonify_each_render_id)
  have reviews_answer:
    "(\<forall>t \<in> set (get_documents db ''review'' [] (Some 50)). map_of t ''_id'' \<noteq> None) \<longrightarrow>
      get_reviews db = Inr (map render_id (get_documents db ''review'' [] (Some 50)))"
    unfolding get_reviews_def by (intro impI) (rule jsonify_each_render_id)
  show ?thesis
    by (intro conjI trips faqs reviews trips_answer reviews_answer)
qed

theorem listing_ids_are_strings_witness:
  "get_trips ex_listing_store =
     Inr [[(''_id'', VStr ''000000000000000000000000''), (''trip_type'', VStr ''sunset''),
           (''capacity'', VInt 10), (''is_active'', VBool True)]] \<and>
   get_reviews ex_listing_store =
     Inr [[(''_id'', VStr ''000000000000000000000006''), (''name'', VStr ''Amal''),
           (''rating'', VInt 5), (''comment'', VStr ''Great''), (''trip_type'', VNone)]] \<and>
   get_documents ex_listing_store ''trip'' [] None = [ex_trip 10] \<and>
   get_documents ex_listing_store ''review'' [] (Some 50) = [ex_review] \<and>
   map_of (ex_trip 10) ''_id'' = Some (VObjectId (ObjectId 0)) \<and>
   map_of (ex_review) ''_id'' = Some (VObjectId (ObjectId 6)) \<and>
   map_of (render_id (ex_trip 10)) ''_id'' = Some (VStr ''000000000000000000000000'') \<and>
   map_of (render_id ex_review) ''_id'' = Some (VStr ''000000000000000000000006'')"
proof -
  have ft: "get_documents ex_listing_store ''trip'' [] None = [ex_trip 10]"
    by (simp add: get_documents_def collection_def ex_listing_store_def matches_empty)
  have fr: "get_documents ex_listing_store ''review'' [] (Some 50) = [ex_review]"
    by (simp add: get_documents_def collection_def ex_listing_store_def matches_empty)
  have it: "map_of (ex_trip 10) ''_id'' = Some (VObjectId (ObjectId 0))"
    by (simp add: ex_trip_def)
  have ir: "map_of ex_review ''_id'' = Some (VObjectId (ObjectId 6))"
    by (simp add: ex_review_def)
  have s0: "py_str (VObjectId (ObjectId 0)) = ''000000000000000000000000''"
    by (simp add: py_str_def str_ObjectId_def hex_char_def upt_rec)
  have s6: "py_str (VObjectId (ObjectId 6)) = ''000000000000000000000006''"
    by (simp add: py_str_def str_ObjectId_def hex_char_def upt_rec)
  have rt: "render_id (ex_trip 10) =
      [(''_id'', VStr ''000000000000000000000000''), (''trip_type'', VStr ''sunset''),
       (''capacity'', VInt 10), (''is_active'', VBool True)]"
    unfolding render_id_def dict_get_def it using s0 by (simp add: ex_trip_def)
  have rr: "render_id ex_review =
      [(''_id'', VStr ''000000000000000000000006''), (''name'', VStr ''Amal''),
       (''rating'', VInt 5), (''comment'', VStr ''Great''), (''trip_type'', VNone)]"
    unfolding render_id_def dict_get_def ir using s6 by (simp add: ex_review_def)
  note t = listing_ids_are_strings [of ex_listing_store]
  have at: "get_trips ex_listing_store = Inr (map render_id [ex_trip 10])"
    using conjunct1 [OF conjunct2 [OF conjunct2 [OF conjunct2 [OF t]]]] it
    unfolding ft by simp
  have ar: "get_reviews ex_listing_store = Inr (map render_id [ex_review])"
    using conjunct2 [OF conjunct2 [OF conjunct2 [OF conjunct2 [OF t]]]] ir
    unfolding fr by simp
  have a1: "get_trips ex_listing_store =
     Inr [[(''_id'', VStr ''000000000000000000000000''), (''trip_type'', VStr ''sunset''),
           (''capacity'', VInt 10), (''is_active'', VBool True)]]"
    unfolding at by (simp add: rt)
  have a2: "get_reviews ex_listing_store =
     Inr [[(''_id'', VStr ''000000000000000000000006''), (''name'', VStr ''Amal''),
           (''rating'', VInt 5), (''comment'', VStr ''Great''), (''trip_type'', VNone)]]"
    unfolding ar by (simp add: rr)
  have m1: "map_of (render_id (ex_trip 10)) ''_id'' = Some (VStr ''000000000000000000000000'')"
    unfolding rt by simp
  have m2: "map_of (render_id ex_review) ''_id'' = Some (VStr ''000000000000000000000006'')"
    unfolding rr by simp
  show ?thesis by (intro conjI a1 a2 ft fr it ir m1 m2)
qed





section \<open>The seed routine\<close>

text \<open>
  Claim C6. \<^verbatim>\<open>seed\<close> always answers \<^verbatim>\<open>{"status": "ok"}\<close>. It leaves the \<^verbatim>\<open>trip\<close>
  collection as it is when it holds a document, and otherwise stores the two Trip
  documents \<open>dimaniyat_trip\<close> and \<open>sunset_trip\<close> in it, under new identifiers;
  independently of this, it leaves the \<^verbatim>\<open>faq\<close> collection as it is when it holds a
  document, and otherwise stores its four FAQ documents (the questions and orders of which
  are listed) in it, under new identifiers; it changes no other collection. A second run
  on the store that a first run leaves changes nothing.
\<close>

theorem seed_idempotent:
  "fst (seed db) = Inr [(''status'', VStr ''ok'')] \<and>
   collection (snd (seed db)) n =
     (if n = ''trip'' \<and> collection db ''trip'' = [] then
        [(''_id'', VObjectId (ObjectId (next_id db))) # dimaniyat_trip,
         (''_id'', VObjectId (ObjectId (next_id db + 1))) # sunset_trip]
      else if n = ''faq'' \<and> collection db ''faq'' = [] then
        [(''_id'', VObjectId (ObjectId
            (next_id db + (if collection db ''trip'' = [] then 2 else 0)))) # seed_faqs ! 0,
         (''_id'', VObjectId (ObjectId
            (next_id db + (if collection db ''trip'' = [] then 2 else 0) + 1))) # seed_faqs ! 1,
         (''_id'', VObjectId (ObjectId
            (next_id db + (if collection db ''trip'' = [] then 2 else 0) + 2))) # seed_faqs ! 2,
         (''_id'', VObjectId (ObjectId
            (next_id db + (if collection db ''trip'' = [] then 2 else 0) + 3))) # seed_faqs ! 3]
      else collection db n) \<and>
   map (\<lambda>d. (map_of d ''question'', map_of d ''order'')) seed_faqs =
     [(Some (VStr ''Where do trips depart from?''), Some (VInt 1)),
      (Some (VStr ''How many guests can join?''), Some (VInt 2)),
      (Some (VStr ''What should I bring?''), Some (VInt 3)),
      (Some (VStr ''Is the glass bottom safe?''), Some (VInt 4))] \<and>
   seed (snd (seed db)) = (Inr [(''status'', VStr ''ok'')], snd (seed db))"
proof -
  have a: "fst (seed db) = Inr [(''status'', VStr ''ok'')]"
    by (simp add: seed_eq)
  have q: "map (\<lambda>d. (map_of d ''question'', map_of d ''order'')) seed_faqs =
     [(Some (VStr ''Where do trips depart from?''), Some (VInt 1)),
      (Some (VStr ''How many guests can join?''), Some (VInt 2)),
      (Some (VStr ''What should I bring?''), Some (VInt 3)),
      (Some (VStr ''Is the glass bottom safe?''), Some (VInt 4))]"
    by (simp add: seed_faqs_def)
  have t: "collection (snd (seed db)) ''trip'' \<noteq> []"
    unfolding collection_seed by simp
  have f: "collection (snd (seed db)) ''faq'' \<noteq> []"
    unfolding collection_seed by simp
  show ?thesis
    by (intro conjI a collection_seed q seed_noop [OF t f])
qed

text \<open>
  The theorem on the empty store: a first run stores two Trip and four FAQ documents, and a
  second run leaves these six documents as they are.
\<close>

theorem seed_idempotent_witness:
  "map (\<lambda>d. map_of d ''trip_type'')
       (collection (snd (seed \<lparr> collections = [], next_id = 0 \<rparr>)) ''trip'') =
     [Some (VStr ''dimaniyat''), Some (VStr ''sunset'')] \<and>
   length (collection (snd (seed \<lparr> collections = [], next_id = 0 \<rparr>)) ''faq'') = 4 \<and>
   map (\<lambda>d. map_of d ''_id'')
       (collection (snd (seed \<lparr> collections = [], next_id = 0 \<rparr>)) ''faq'') =
     [Some (VObjectId (ObjectId 2)), Some (VObjectId (ObjectId 3)),
      Some (VObjectId (ObjectId 4)), Some (VObjectId (ObjectId 5))] \<and>
   collection (snd (seed (snd (seed \<lparr> collections = [], next_id = 0 \<rparr>)))) ''trip'' =
     collection (snd (seed \<lparr> collections = [], next_id = 0 \<rparr>)) ''trip'' \<and>
   collection (snd (seed (snd (seed \<lparr> collections = [], next_id = 0 \<rparr>)))) ''faq'' =
     collection (snd (seed \<lparr> collections = [], next_id = 0 \<rparr>)) ''faq''"
proof -
  let ?db = "\<lparr> collections = [], next_id = 0 \<rparr>"
  have e: "collection ?db m = []" for m
    by (simp add: collection_def)
  have n: "next_id ?db = 0"
    by simp
  note s = seed_idempotent [of ?db]
  have t: "collection (snd (seed ?db)) ''trip'' =
      [(''_id'', VObjectId (ObjectId 0)) # dimaniyat_trip,
       (''_id'', VObjectId (ObjectId 1)) # sunset_trip]"
    using conjunct1 [OF conjunct2 [OF s [of "''trip''"]]] unfolding e n by simp
  have f: "collection (snd (seed ?db)) ''faq'' =
      [(''_id'', VObjectId (ObjectId 2)) # seed_faqs ! 0,
       (''_id'', VObjectId (ObjectId 3)) # seed_faqs ! 1,
       (''_id'', VObjectId (ObjectId 4)) # seed_faqs ! 2,
       (''_id'', VObjectId (ObjectId 5)) # seed_faqs ! 3]"
    using conjunct1 [OF conjunct2 [OF s [of "''faq''"]]] unfolding e n by simp
  have again: "seed (snd (seed ?db)) = (Inr [(''status'', VStr ''ok'')], snd (seed ?db))"
    using conjunct2 [OF conjunct2 [OF conjunct2 [OF s [of "''trip''"]]]] .
  have w1: "map (\<lambda>d. map_of d ''trip_type'') (collection (snd (seed ?db)) ''trip'') =
     [Some (VStr ''dimaniyat''), Some (VStr ''sunset'')]"
    unfolding t by (simp add: dimaniyat_trip_def sunset_trip_def)
  have w2: "length (collection (snd (seed ?db)) ''faq'') = 4"
    unfolding f by simp
  have w3: "map (\<lambda>d. map_of d ''_id'') (collection (snd (seed ?db)) ''faq'') =
     [Some (VObjectId (ObjectId 2)), Some (VObjectId (ObjectId 3)),
      Some (VObjectId (ObjectId 4)), Some (VObjectId (ObjectId 5))]"
    unfolding f by simp
  have w4: "collection (snd (seed (snd (seed ?db)))) ''trip'' = collection (snd (seed ?db)) ''trip''"
    unfolding again by simp
  have w5: "collection (snd (seed (snd (seed ?db)))) ''faq'' = collection (snd (seed ?db)) ''faq''"
    unfolding again by simp
  show ?thesis by (intro conjI w1 w2 w3 w4 w5)
qed
end
